theory Spec2Isabelle
  imports Complex_Main "HOL-Library.AList" "HOL-Library.Char_ord" "HOL-Library.List_Lexorder"
begin

section \<open>The document store\<close>

text \<open>
  \<^verbatim>\<open>backend/server.py\<close> keeps all of its state in MongoDB collections of
  documents. A document is a Python \<^verbatim>\<open>dict\<close> from field names to values; here it is
  an association list in insertion order, read with \<^const>\<open>map_of\<close>. Every read of the
  source projects \<^verbatim>\<open>_id\<close> away (\<^verbatim>\<open>{"_id": 0}\<close>), so documents are modelled
  without that field. Python's \<^verbatim>\<open>None\<close> is \<open>BNull\<close>, datetimes are stored
  through \<^verbatim>\<open>isoformat()\<close> and are therefore strings. Python integers are
  unbounded, but the driver encodes an integer in at most 8 bytes: a write that carries
  a larger one raises \<^verbatim>\<open>OverflowError\<close> and reaches the store not at all.
\<close>

datatype bson =
    BNull
  | BBool bool
  | BInt int
  | BStr string
  | BDoc "(string \<times> bson) list"

type_synonym document = "(string \<times> bson) list"

text \<open>A query condition on one field: plain equality, or \<^verbatim>\<open>{"$gte": v}\<close>.\<close>

datatype cond = Eq bson | Gte bson

type_synonym query = "(string \<times> cond) list"

datatype error =
    HTTPException nat string
  | KeyError string
  | ValueError
  | ZeroDivisionError
  | ValidationError
  | OverflowError

record database =
  credentials :: "document list"
  rate_limits :: "document list"
  automation_state :: "document list"
  activity_logs :: "document list"
  connections :: "document list"
  messages :: "document list"

text \<open>The integers the encoder accepts: signed, 8 bytes.\<close>

definition int64 :: "int \<Rightarrow> bool" where
  "int64 n = (- (2 ^ 63) \<le> n \<and> n < 2 ^ 63)"

text \<open>Whether the encoder accepts a value: every integer in it, at any depth, fits.\<close>

fun encodable :: "bson \<Rightarrow> bool" where
  "encodable BNull = True"
| "encodable (BBool b) = True"
| "encodable (BInt n) = int64 n"
| "encodable (BStr s) = True"
| "encodable (BDoc kvs) = (\<forall>p\<in>set kvs. encodable (snd p))"

definition encodable_doc :: "document \<Rightarrow> bool" where
  "encodable_doc d = (\<forall>p\<in>set d. encodable (snd p))"

fun cond_value :: "cond \<Rightarrow> bson" where
  "cond_value (Eq v) = v"
| "cond_value (Gte v) = v"

definition encodable_query :: "query \<Rightarrow> bool" where
  "encodable_query q = (\<forall>p\<in>set q. encodable (cond_value (snd p)))"

text \<open>
  Matching a field against a condition. Equality with \<^verbatim>\<open>null\<close> also matches a
  missing field; \<^verbatim>\<open>$gte\<close> compares within one type only (strings bytewise,
  in lexicographic order).
\<close>

fun matches_cond :: "cond \<Rightarrow> bson option \<Rightarrow> bool" where
  "matches_cond (Eq v) None = (v = BNull)"
| "matches_cond (Eq v) (Some w) = (v = w)"
| "matches_cond (Gte (BStr s)) (Some (BStr t)) = (s \<le> t)"
| "matches_cond (Gte (BInt i)) (Some (BInt j)) = (i \<le> j)"
| "matches_cond (Gte v) w = False"

fun matches :: "query \<Rightarrow> document \<Rightarrow> bool" where
  "matches [] d = True"
| "matches ((k, c) # q) d = (matches_cond c (map_of d k) \<and> matches q d)"

fun find_one :: "query \<Rightarrow> document list \<Rightarrow> document option" where
  "find_one q [] = None"
| "find_one q (d # ds) = (if matches q d then Some d else find_one q ds)"

definition count_documents :: "query \<Rightarrow> document list \<Rightarrow> int" where
  "count_documents q coll = int (length (filter (matches q) coll))"

text \<open>\<^verbatim>\<open>insert_one(d)\<close>: the document is encoded, then appended.\<close>

definition insert_one :: "document \<Rightarrow> document list \<Rightarrow> error + document list" where
  "insert_one d coll = (if encodable_doc d then Inr (coll @ [d]) else Inl OverflowError)"

text \<open>\<^verbatim>\<open>{"$set": upd}\<close>: each field of \<open>upd\<close> is overwritten in place or appended.\<close>

definition set_fields :: "document \<Rightarrow> document \<Rightarrow> document" where
  "set_fields upd d = fold (\<lambda>(k, v). AList.update k v) upd d"

text \<open>The document an upsert creates starts from the equality fields of the query.\<close>

fun eq_fields :: "query \<Rightarrow> document" where
  "eq_fields [] = []"
| "eq_fields ((k, Eq v) # q) = (k, v) # eq_fields q"
| "eq_fields ((k, Gte v) # q) = eq_fields q"

text \<open>
  What the store does with an update it has received: it changes the first document
  that matches; with \<^verbatim>\<open>upsert\<close> and no match it inserts a new one.
\<close>

fun apply_update :: "query \<Rightarrow> document \<Rightarrow> bool \<Rightarrow> document list \<Rightarrow> document list" where
  "apply_update q upd upsert [] = (if upsert then [set_fields upd (eq_fields q)] else [])"
| "apply_update q upd upsert (d # ds) =
     (if matches q d then set_fields upd d # ds else d # apply_update q upd upsert ds)"

text \<open>
  \<^verbatim>\<open>update_one(q, {"$set": upd}, upsert=...)\<close>: the query and the update are
  encoded, then the store applies the update.
\<close>

definition update_one ::
  "query \<Rightarrow> document \<Rightarrow> bool \<Rightarrow> document list \<Rightarrow> error + document list" where
  "update_one q upd upsert coll =
     (if encodable_query q \<and> encodable_doc upd
      then Inr (apply_update q upd upsert coll)
      else Inl OverflowError)"

text \<open>Python truthiness of the result of \<^verbatim>\<open>find_one\<close>: \<^verbatim>\<open>None\<close> and \<^verbatim>\<open>{}\<close> are false.\<close>

fun truthy :: "document option \<Rightarrow> bool" where
  "truthy None = False"
| "truthy (Some d) = (d \<noteq> [])"

section \<open>Enumerations and activity log\<close>

datatype AutomationStatus = IDLE | RUNNING | PAUSED | ERROR

fun AutomationStatus_value :: "AutomationStatus \<Rightarrow> string" where
  "AutomationStatus_value IDLE = ''idle''"
| "AutomationStatus_value RUNNING = ''running''"
| "AutomationStatus_value PAUSED = ''paused''"
| "AutomationStatus_value ERROR = ''error''"

text \<open>\<^verbatim>\<open>AutomationStatus(v)\<close>: lookup by value, \<^verbatim>\<open>ValueError\<close> otherwise.\<close>

definition AutomationStatus_of :: "bson \<Rightarrow> error + AutomationStatus" where
  "AutomationStatus_of v =
     (if v = BStr ''idle'' then Inr IDLE
      else if v = BStr ''running'' then Inr RUNNING
      else if v = BStr ''paused'' then Inr PAUSED
      else if v = BStr ''error'' then Inr ERROR
      else Inl ValueError)"

text \<open>
  The two default factories of \<^verbatim>\<open>ActivityLog\<close> read the environment: a fresh
  \<^verbatim>\<open>uuid4\<close> and the clock. They are inputs of the model.
\<close>

record stamp =
  uuid :: string
  now :: string

definition ActivityLog_dump :: "stamp \<Rightarrow> string \<Rightarrow> string \<Rightarrow> bson \<Rightarrow> string \<Rightarrow> document" where
  "ActivityLog_dump st action_type description details status =
     [(''id'', BStr (uuid st)),
      (''action_type'', BStr action_type),
      (''description'', BStr description),
      (''details'', details),
      (''status'', BStr status),
      (''timestamp'', BStr (now st))]"

definition log_activity ::
  "stamp \<Rightarrow> string \<Rightarrow> string \<Rightarrow> bson \<Rightarrow> string \<Rightarrow> database \<Rightarrow> error + database" where
  "log_activity st action_type description details status db =
     (case insert_one (ActivityLog_dump st action_type description details status)
             (activity_logs db) of
        Inl e \<Rightarrow> Inl e
      | Inr logs \<Rightarrow> Inr (db\<lparr>activity_logs := logs\<rparr>))"

section \<open>Automation state endpoints\<close>

definition state_query :: query where
  "state_query = [(''id'', Eq (BStr ''automation_state''))]"

text \<open>The persisted state document, as \<^verbatim>\<open>get_automation_state\<close> looks it up.\<close>

definition stored_state :: "database \<Rightarrow> document option" where
  "stored_state db = find_one state_query (automation_state db)"

text \<open>
  The document an update of the state starts from: the stored one, or the one an
  upsert creates from the query.
\<close>

definition state_base :: "database \<Rightarrow> document" where
  "state_base db = (case stored_state db of Some d \<Rightarrow> d | None \<Rightarrow> eq_fields state_query)"

definition credentials_configured :: "database \<Rightarrow> bool" where
  "credentials_configured db = truthy (find_one [] (credentials db))"

text \<open>
  Each endpoint returns the database it leaves behind and either the exception it
  raised or its JSON response: an exception ends the handler, and what was written
  before it stays written. \<open>t\<close> is the clock reading of the handler itself.
\<close>

definition start_automation :: "string \<Rightarrow> stamp \<Rightarrow> database \<Rightarrow> database \<times> (error + document)" where
  "start_automation t st db =
     (let creds = find_one [] (credentials db) in
      if \<not> truthy creds
      then (db, Inl (HTTPException 400 ''LinkedIn credentials not configured''))
      else
        (case update_one state_query
                [(''status'', BStr (AutomationStatus_value RUNNING)),
                 (''started_at'', BStr t),
                 (''error_message'', BNull)]
                True (automation_state db) of
           Inl e \<Rightarrow> (db, Inl e)
         | Inr coll \<Rightarrow>
             let db1 = db\<lparr>automation_state := coll\<rparr> in
             (case log_activity st ''automation'' ''Automation started'' BNull ''success'' db1 of
                Inl e \<Rightarrow> (db1, Inl e)
              | Inr db2 \<Rightarrow>
                  (db2, Inr [(''message'', BStr ''Automation started''),
                             (''status'', BStr ''running'')]))))"

definition stop_automation :: "stamp \<Rightarrow> database \<Rightarrow> database \<times> (error + document)" where
  "stop_automation st db =
     (case update_one state_query
             [(''status'', BStr (AutomationStatus_value IDLE)),
              (''current_task'', BNull)]
             True (automation_state db) of
        Inl e \<Rightarrow> (db, Inl e)
      | Inr coll \<Rightarrow>
          let db1 = db\<lparr>automation_state := coll\<rparr> in
          (case log_activity st ''automation'' ''Automation stopped'' BNull ''success'' db1 of
             Inl e \<Rightarrow> (db1, Inl e)
           | Inr db2 \<Rightarrow>
               (db2, Inr [(''message'', BStr ''Automation stopped''),
                          (''status'', BStr ''idle'')])))"

definition pause_automation :: "stamp \<Rightarrow> database \<Rightarrow> database \<times> (error + document)" where
  "pause_automation st db =
     (case update_one state_query
             [(''status'', BStr (AutomationStatus_value PAUSED))]
             True (automation_state db) of
        Inl e \<Rightarrow> (db, Inl e)
      | Inr coll \<Rightarrow>
          let db1 = db\<lparr>automation_state := coll\<rparr> in
          (case log_activity st ''automation'' ''Automation paused'' BNull ''success'' db1 of
             Inl e \<Rightarrow> (db1, Inl e)
           | Inr db2 \<Rightarrow>
               (db2, Inr [(''message'', BStr ''Automation paused''),
                          (''status'', BStr ''paused'')])))"

definition resume_automation :: "stamp \<Rightarrow> database \<Rightarrow> database \<times> (error + document)" where
  "resume_automation st db =
     (case update_one state_query
             [(''status'', BStr (AutomationStatus_value RUNNING))]
             True (automation_state db) of
        Inl e \<Rightarrow> (db, Inl e)
      | Inr coll \<Rightarrow>
          let db1 = db\<lparr>automation_state := coll\<rparr> in
          (case log_activity st ''automation'' ''Automation resumed'' BNull ''success'' db1 of
             Inl e \<Rightarrow> (db1, Inl e)
           | Inr db2 \<Rightarrow>
               (db2, Inr [(''message'', BStr ''Automation resumed''),
                          (''status'', BStr ''running'')])))"

section \<open>Credentials endpoint\<close>

definition dict_get :: "document \<Rightarrow> string \<Rightarrow> bson \<Rightarrow> bson" where
  "dict_get d k dflt = (case map_of d k of Some v \<Rightarrow> v | None \<Rightarrow> dflt)"

definition credentials_absent :: document where
  "credentials_absent = [(''configured'', BBool False), (''email'', BStr []), (''updated_at'', BNull)]"

definition get_credentials :: "database \<Rightarrow> document" where
  "get_credentials db =
     (case find_one [] (credentials db) of
        None \<Rightarrow> credentials_absent
      | Some creds \<Rightarrow>
          if creds \<noteq> []
          then [(''configured'', BBool True),
                (''email'', dict_get creds ''email'' (BStr [])),
                (''updated_at'', dict_get creds ''updated_at'' BNull)]
          else credentials_absent)"

section \<open>Rate limit configuration endpoints\<close>

record RateLimitConfig =
  config_id :: string
  daily_connection_limit :: int
  daily_message_limit :: int
  min_action_delay_ms :: int
  max_action_delay_ms :: int
  business_hours_start :: int
  business_hours_end :: int
  skip_weekends :: bool
  updated_at :: string

text \<open>The request body of \<^verbatim>\<open>PUT /rate-limits\<close>, after validation: every field optional.\<close>

record RateLimitConfigUpdate =
  upd_daily_connection_limit :: "int option"
  upd_daily_message_limit :: "int option"
  upd_min_action_delay_ms :: "int option"
  upd_max_action_delay_ms :: "int option"
  upd_business_hours_start :: "int option"
  upd_business_hours_end :: "int option"
  upd_skip_weekends :: "bool option"

fun opt_int :: "int option \<Rightarrow> bson" where
  "opt_int None = BNull"
| "opt_int (Some n) = BInt n"

fun opt_bool :: "bool option \<Rightarrow> bson" where
  "opt_bool None = BNull"
| "opt_bool (Some b) = BBool b"

definition RateLimitConfigUpdate_dump :: "RateLimitConfigUpdate \<Rightarrow> document" where
  "RateLimitConfigUpdate_dump c =
     [(''daily_connection_limit'', opt_int (upd_daily_connection_limit c)),
      (''daily_message_limit'', opt_int (upd_daily_message_limit c)),
      (''min_action_delay_ms'', opt_int (upd_min_action_delay_ms c)),
      (''max_action_delay_ms'', opt_int (upd_max_action_delay_ms c)),
      (''business_hours_start'', opt_int (upd_business_hours_start c)),
      (''business_hours_end'', opt_int (upd_business_hours_end c)),
      (''skip_weekends'', opt_bool (upd_skip_weekends c))]"

text \<open>
  \<^verbatim>\<open>{k: v for k, v in config.model_dump().items() if v is not None}\<close>, then the
  \<^verbatim>\<open>updated_at\<close> entry.
\<close>

definition update_data_of :: "RateLimitConfigUpdate \<Rightarrow> string \<Rightarrow> document" where
  "update_data_of c t =
     filter (\<lambda>(k, v). v \<noteq> BNull) (RateLimitConfigUpdate_dump c) @ [(''updated_at'', BStr t)]"

definition RateLimitConfig_default :: "string \<Rightarrow> string \<Rightarrow> RateLimitConfig" where
  "RateLimitConfig_default fresh t =
     \<lparr>config_id = fresh, daily_connection_limit = 50, daily_message_limit = 100,
      min_action_delay_ms = 5000, max_action_delay_ms = 15000,
      business_hours_start = 9, business_hours_end = 18, skip_weekends = True,
      updated_at = t\<rparr>"

text \<open>
  \<^verbatim>\<open>RateLimitConfig(**update_data)\<close>: a supplied field takes its value, any other
  its default; the id comes from the \<^verbatim>\<open>uuid4\<close> factory.
\<close>

definition RateLimitConfig_new :: "string \<Rightarrow> RateLimitConfigUpdate \<Rightarrow> string \<Rightarrow> RateLimitConfig" where
  "RateLimitConfig_new fresh c t =
     \<lparr>config_id = fresh,
      daily_connection_limit = (case upd_daily_connection_limit c of Some n \<Rightarrow> n | None \<Rightarrow> 50),
      daily_message_limit = (case upd_daily_message_limit c of Some n \<Rightarrow> n | None \<Rightarrow> 100),
      min_action_delay_ms = (case upd_min_action_delay_ms c of Some n \<Rightarrow> n | None \<Rightarrow> 5000),
      max_action_delay_ms = (case upd_max_action_delay_ms c of Some n \<Rightarrow> n | None \<Rightarrow> 15000),
      business_hours_start = (case upd_business_hours_start c of Some n \<Rightarrow> n | None \<Rightarrow> 9),
      business_hours_end = (case upd_business_hours_end c of Some n \<Rightarrow> n | None \<Rightarrow> 18),
      skip_weekends = (case upd_skip_weekends c of Some b \<Rightarrow> b | None \<Rightarrow> True),
      updated_at = t\<rparr>"

text \<open>\<^verbatim>\<open>serialize_doc(config.model_dump())\<close>.\<close>

definition RateLimitConfig_dump :: "RateLimitConfig \<Rightarrow> document" where
  "RateLimitConfig_dump r =
     [(''id'', BStr (config_id r)),
      (''daily_connection_limit'', BInt (daily_connection_limit r)),
      (''daily_message_limit'', BInt (daily_message_limit r)),
      (''min_action_delay_ms'', BInt (min_action_delay_ms r)),
      (''max_action_delay_ms'', BInt (max_action_delay_ms r)),
      (''business_hours_start'', BInt (business_hours_start r)),
      (''business_hours_end'', BInt (business_hours_end r)),
      (''skip_weekends'', BBool (skip_weekends r)),
      (''updated_at'', BStr (updated_at r))]"

text \<open>
  Building the response model from a stored document,
  \<^verbatim>\<open>RateLimitConfig(**deserialize_doc(doc))\<close>, is the work of the validation
  library; the endpoints take it as the parameter \<open>validate\<close>.
\<close>

type_synonym validator = "document \<Rightarrow> error + RateLimitConfig"


text \<open>
  \<open>t\<close> is the clock reading for \<^verbatim>\<open>updated_at\<close>, \<open>fresh\<close> the id a new
  configuration would get, \<open>st\<close> the stamp of the activity log entry. Reading
  \<^verbatim>\<open>existing["id"]\<close> raises \<^verbatim>\<open>KeyError\<close> when the stored document has no id.
  The request's integers are not checked before they go to the driver, so the write
  itself raises when one of them does not fit.
\<close>

definition update_rate_limits ::
  "validator \<Rightarrow> string \<Rightarrow> string \<Rightarrow> stamp \<Rightarrow> RateLimitConfigUpdate \<Rightarrow> database
     \<Rightarrow> database \<times> (error + RateLimitConfig)" where
  "update_rate_limits validate t fresh st config db =
     (let existing = find_one [] (rate_limits db);
          update_data = update_data_of config t
      in
      if truthy existing
      then
        (case map_of (case existing of Some e \<Rightarrow> e | None \<Rightarrow> []) ''id'' of
           None \<Rightarrow> (db, Inl (KeyError ''id''))
         | Some i \<Rightarrow>
             (case update_one [(''id'', Eq i)] update_data False (rate_limits db) of
                Inl e \<Rightarrow> (db, Inl e)
              | Inr coll \<Rightarrow>
                  let updated = find_one [(''id'', Eq i)] coll;
                      db1 = db\<lparr>rate_limits := coll\<rparr>
                  in
                  (case log_activity st ''config'' ''Rate limits updated'' (BDoc update_data)
                          ''success'' db1 of
                     Inl e \<Rightarrow> (db1, Inl e)
                   | Inr db2 \<Rightarrow>
                       (db2, validate (case updated of Some u \<Rightarrow> u | None \<Rightarrow> [])))))
      else
        let new_config = RateLimitConfig_new fresh config t;
            doc = RateLimitConfig_dump new_config
        in
        (case insert_one doc (rate_limits db) of
           Inl e \<Rightarrow> (db, Inl e)
         | Inr coll \<Rightarrow>
             let db1 = db\<lparr>rate_limits := coll\<rparr> in
             (case log_activity st ''config'' ''Rate limits updated'' (BDoc update_data)
                     ''success'' db1 of
                Inl e \<Rightarrow> (db1, Inl e)
              | Inr db2 \<Rightarrow> (db2, validate doc))))"

text \<open>The stored configuration, as both endpoints look it up.\<close>

definition stored_rate_limits :: "database \<Rightarrow> document option" where
  "stored_rate_limits db = find_one [] (rate_limits db)"

definition int_field :: "document \<Rightarrow> string \<Rightarrow> int option" where
  "int_field d k = (case map_of d k of Some (BInt n) \<Rightarrow> Some n | _ \<Rightarrow> None)"





text \<open>Whether every integer a request supplies is one the encoder accepts.\<close>

definition fits :: "int option \<Rightarrow> bool" where
  "fits x = (case x of None \<Rightarrow> True | Some n \<Rightarrow> int64 n)"

definition request_fits :: "RateLimitConfigUpdate \<Rightarrow> bool" where
  "request_fits c =
     (fits (upd_daily_connection_limit c) \<and> fits (upd_daily_message_limit c)
      \<and> fits (upd_min_action_delay_ms c) \<and> fits (upd_max_action_delay_ms c)
      \<and> fits (upd_business_hours_start c) \<and> fits (upd_business_hours_end c))"

text \<open>
  The value a request supplies for a field of the stored document, if it supplies one:
  the non-null entries of the request body.
\<close>

definition supplied_value :: "RateLimitConfigUpdate \<Rightarrow> string \<Rightarrow> bson option" where
  "supplied_value c k =
     (if k = ''daily_connection_limit'' then map_option BInt (upd_daily_connection_limit c)
      else if k = ''daily_message_limit'' then map_option BInt (upd_daily_message_limit c)
      else if k = ''min_action_delay_ms'' then map_option BInt (upd_min_action_delay_ms c)
      else if k = ''max_action_delay_ms'' then map_option BInt (upd_max_action_delay_ms c)
      else if k = ''business_hours_start'' then map_option BInt (upd_business_hours_start c)
      else if k = ''business_hours_end'' then map_option BInt (upd_business_hours_end c)
      else if k = ''skip_weekends'' then map_option BBool (upd_skip_weekends c)
      else None)"

section \<open>Dashboard statistics\<close>

text \<open>
  The success rate is a Python \<^verbatim>\<open>float\<close>. Its arithmetic is not modelled bit by
  bit: the four float operations the handler uses are parameters, so what is proved
  holds for Python's own. Only the check of \<^verbatim>\<open>/\<close> for a zero divisor is written
  out, since that is what the handler guards against.
\<close>

record 'f float_ops =
  fzero :: 'f
  fdiv :: "int \<Rightarrow> int \<Rightarrow> 'f"
  fmul :: "'f \<Rightarrow> int \<Rightarrow> 'f"
  fround :: "'f \<Rightarrow> int \<Rightarrow> 'f"

definition truediv :: "'f float_ops \<Rightarrow> int \<Rightarrow> int \<Rightarrow> error + 'f" where
  "truediv ops a b = (if b = 0 then Inl ZeroDivisionError else Inr (fdiv ops a b))"

record 'f DashboardStats =
  total_connections :: int
  pending_connections :: int
  accepted_connections :: int
  total_messages :: int
  messages_today :: int
  connections_today :: int
  automation_status :: AutomationStatus
  success_rate :: 'f

text \<open>\<^verbatim>\<open>AutomationStatus(state["status"]) if state else AutomationStatus.IDLE\<close>.\<close>

definition status_of_state :: "document option \<Rightarrow> error + AutomationStatus" where
  "status_of_state state =
     (case state of
        None \<Rightarrow> Inr IDLE
      | Some s \<Rightarrow>
          if s = [] then Inr IDLE
          else (case map_of s ''status'' of
                  None \<Rightarrow> Inl (KeyError ''status'')
                | Some v \<Rightarrow> AutomationStatus_of v))"

text \<open>
  \<^verbatim>\<open>success_rate = 0.0\<close>, overwritten by \<^verbatim>\<open>(accepted / total) * 100\<close> when
  \<^verbatim>\<open>total > 0\<close>.
\<close>

definition success_rate_of :: "'f float_ops \<Rightarrow> int \<Rightarrow> int \<Rightarrow> error + 'f" where
  "success_rate_of ops n_accepted n_total =
     (if n_total > 0
      then (case truediv ops n_accepted n_total of
              Inl e \<Rightarrow> Inl e
            | Inr q \<Rightarrow> Inr (fmul ops q 100))
      else Inr (fzero ops))"

text \<open>\<open>today\<close> is \<^verbatim>\<open>today.isoformat()\<close>, UTC midnight of the current day.\<close>

definition get_dashboard_stats :: "'f float_ops \<Rightarrow> string \<Rightarrow> database \<Rightarrow> error + 'f DashboardStats" where
  "get_dashboard_stats ops today db =
     (let n_total = count_documents [] (connections db);
          n_pending = count_documents [(''status'', Eq (BStr ''pending''))] (connections db);
          n_accepted = count_documents [(''status'', Eq (BStr ''accepted''))] (connections db);
          n_messages = count_documents [] (messages db);
          n_messages_today = count_documents [(''sent_at'', Gte (BStr today))] (messages db);
          n_connections_today = count_documents [(''created_at'', Gte (BStr today))] (connections db);
          state = find_one state_query (automation_state db)
      in
      case status_of_state state of
        Inl e \<Rightarrow> Inl e
      | Inr status \<Rightarrow>
          (case success_rate_of ops n_accepted n_total of
             Inl e \<Rightarrow> Inl e
           | Inr rate \<Rightarrow>
               Inr \<lparr>total_connections = n_total,
                    pending_connections = n_pending,
                    accepted_connections = n_accepted,
                    total_messages = n_messages,
                    messages_today = n_messages_today,
                    connections_today = n_connections_today,
                    automation_status = status,
                    success_rate = fround ops rate 1\<rparr>))"

text \<open>
  Decimal arithmetic on rationals, one interpretation of the float operations:
  rounding to a number of decimal digits, halves to even.
\<close>

definition round_half_even :: "rat \<Rightarrow> int" where
  "round_half_even x =
     (let f = \<lfloor>x\<rfloor>; r = x - of_int f in
      if r < 1 / 2 then f
      else if r > 1 / 2 then f + 1
      else if even f then f else f + 1)"

definition rat_ops :: "rat float_ops" where
  "rat_ops =
     \<lparr>fzero = 0,
      fdiv = (\<lambda>a b. of_int a / of_int b),
      fmul = (\<lambda>x n. x * of_int n),
      fround = (\<lambda>x n. of_int (round_half_even (x * 10 ^ nat n)) / 10 ^ nat n)\<rparr>"

section \<open>Token bucket limiter\<close>

text \<open>
  \<^verbatim>\<open>backend/server.py\<close> stores the daily limits and the two day counters but has
  no limiter: the engine that would consume quota is not part of the file. The
  definitions of this section follow the specification's description of it.
\<close>

text \<open>Modelled from the spec: the kind of a pending action (section 3), whose type is missing.\<close>

datatype action_kind = Connect | FollowUp

text \<open>
  Modelled from the spec: the limiter's share of the automation state, missing as a type
  of its own: the two day counters and the UTC date of \<^verbatim>\<open>last_action_at\<close> (a day
  number, absent before the first action).
\<close>

record limiter_state =
  lim_connections_today :: int
  lim_messages_today :: int
  lim_last_action_day :: "int option"

text \<open>Modelled from the spec: the state before any action, the defaults of the state document.\<close>

definition limiter_initial :: limiter_state where
  "limiter_initial = \<lparr>lim_connections_today = 0, lim_messages_today = 0, lim_last_action_day = None\<rparr>"

text \<open>Modelled from the spec: \<^verbatim>\<open>count_today(kind)\<close> of section 4.2, missing from the source.\<close>

fun count_today :: "limiter_state \<Rightarrow> action_kind \<Rightarrow> int" where
  "count_today s Connect = lim_connections_today s"
| "count_today s FollowUp = lim_messages_today s"

text \<open>Modelled from the spec: \<^verbatim>\<open>limit(kind)\<close> of section 4.2, missing from the source.\<close>

fun limit_of :: "RateLimitConfig \<Rightarrow> action_kind \<Rightarrow> int" where
  "limit_of cfg Connect = daily_connection_limit cfg"
| "limit_of cfg FollowUp = daily_message_limit cfg"

text \<open>
  Modelled from the spec: \<^verbatim>\<open>TryConsume\<close> of section 4.2, missing from the source:
  allowed iff \<^verbatim>\<open>count_today(kind) < limit(kind)\<close>.
\<close>

definition TryConsume :: "RateLimitConfig \<Rightarrow> limiter_state \<Rightarrow> action_kind \<Rightarrow> bool" where
  "TryConsume cfg s kind = (count_today s kind < limit_of cfg kind)"

text \<open>
  Modelled from the spec: the day boundary of section 4.2, missing from the source: both
  counters go to zero when the current action's UTC date differs from the date of
  \<^verbatim>\<open>last_action_at\<close>.
\<close>

definition roll_day :: "int \<Rightarrow> limiter_state \<Rightarrow> limiter_state" where
  "roll_day today s =
     (if lim_last_action_day s = Some today then s
      else s\<lparr>lim_connections_today := 0, lim_messages_today := 0\<rparr>)"

text \<open>
  Modelled from the spec: step 7 of the action loop (section 4.5), missing from the source:
  a successful dispatch increments the counter of its kind and updates
  \<^verbatim>\<open>last_action_at\<close>.
\<close>

fun record_success :: "action_kind \<Rightarrow> int \<Rightarrow> limiter_state \<Rightarrow> limiter_state" where
  "record_success Connect today s =
     s\<lparr>lim_connections_today := lim_connections_today s + 1, lim_last_action_day := Some today\<rparr>"
| "record_success FollowUp today s =
     s\<lparr>lim_messages_today := lim_messages_today s + 1, lim_last_action_day := Some today\<rparr>"

text \<open>
  Modelled from the spec: one iteration of the action loop as far as the limiter sees it
  (steps 4, 7 and 8 of section 4.5), missing from the source. An attempt is the UTC day
  it happens on, its kind, and whether the dispatch would succeed. The result is the
  new state and whether quota was consumed.
\<close>

fun attempt :: "RateLimitConfig \<Rightarrow> limiter_state \<Rightarrow> int \<times> action_kind \<times> bool \<Rightarrow> limiter_state \<times> bool" where
  "attempt cfg s (today, kind, ok) =
     (let s1 = roll_day today s in
      if TryConsume cfg s1 kind
      then (if ok then (record_success kind today s1, True) else (s1, False))
      else (s1, False))"

text \<open>
  Modelled from the spec: the action loop run over a history of attempts, missing from
  the source. It returns the final state and the consumptions, each with its day and kind.
\<close>

definition limiter_step ::
  "RateLimitConfig \<Rightarrow> limiter_state \<times> (int \<times> action_kind) list \<Rightarrow> int \<times> action_kind \<times> bool
     \<Rightarrow> limiter_state \<times> (int \<times> action_kind) list" where
  "limiter_step cfg acc a =
     (case attempt cfg (fst acc) a of
        (s', consumed) \<Rightarrow> (s', if consumed then snd acc @ [(fst a, fst (snd a))] else snd acc))"

definition limiter_run ::
  "RateLimitConfig \<Rightarrow> (int \<times> action_kind \<times> bool) list \<Rightarrow> limiter_state \<times> (int \<times> action_kind) list" where
  "limiter_run cfg h = foldl (limiter_step cfg) (limiter_initial, []) h"

text \<open>Modelled from the spec: the number of consumptions of one kind within one UTC day.\<close>

definition consumed_on :: "(int \<times> action_kind) list \<Rightarrow> int \<Rightarrow> action_kind \<Rightarrow> int" where
  "consumed_on cs d k = int (length (filter (\<lambda>c. c = (d, k)) cs))"

text \<open>
  What holds of the state and the consumptions after any history in chronological
  order: the last action day is the day of the last consumption, consumption days are
  in order and are days of the history, no day exceeds a limit, and the counters are
  the consumptions of the latest day.
\<close>

definition limiter_inv ::
  "RateLimitConfig \<Rightarrow> (int \<times> action_kind \<times> bool) list
     \<Rightarrow> limiter_state \<times> (int \<times> action_kind) list \<Rightarrow> bool" where
  "limiter_inv cfg h r =
     (lim_last_action_day (fst r) = (if snd r = [] then None else Some (fst (last (snd r))))
      \<and> sorted (map fst (snd r))
      \<and> fst ` set (snd r) \<subseteq> fst ` set h
      \<and> (\<forall>d k. consumed_on (snd r) d k \<le> limit_of cfg k)
      \<and> (h \<noteq> [] \<longrightarrow> (\<forall>k. count_today (fst r) k = consumed_on (snd r) (fst (last h)) k)))"

section \<open>Example databases\<close>

definition db_empty :: database where
  "db_empty = \<lparr>credentials = [], rate_limits = [], automation_state = [], activity_logs = [],
                connections = [], messages = []\<rparr>"

definition example_credentials :: "string \<Rightarrow> document" where
  "example_credentials pw =
     [(''id'', BStr ''c-1''),
      (''email'', BStr ''user@example.com''),
      (''password'', BStr pw),
      (''encrypted'', BBool False),
      (''created_at'', BStr ''2026-01-05T08:00:00+00:00''),
      (''updated_at'', BStr ''2026-01-05T08:00:00+00:00'')]"

definition example_state :: "AutomationStatus \<Rightarrow> document" where
  "example_state s =
     [(''id'', BStr ''automation_state''),
      (''status'', BStr (AutomationStatus_value s)),
      (''current_task'', BStr ''searching''),
      (''connections_today'', BInt 3),
      (''messages_today'', BInt 1),
      (''last_action_at'', BStr ''2026-01-05T09:30:00+00:00''),
      (''started_at'', BStr ''2026-01-05T09:00:00+00:00''),
      (''error_message'', BNull)]"

definition example_db :: "AutomationStatus \<Rightarrow> database" where
  "example_db s = db_empty\<lparr>credentials := [example_credentials ''hunter2''],
                           automation_state := [example_state s]\<rparr>"

text \<open>
  One validator, for the examples: it accepts a document in which every field is present
  with its declared type and rejects any other (the defaults and coercions of the
  validation library are not reproduced).
\<close>

definition validate_strict :: validator where
  "validate_strict d =
     (case (map_of d ''id'', int_field d ''daily_connection_limit'',
            int_field d ''daily_message_limit'', int_field d ''min_action_delay_ms'',
            int_field d ''max_action_delay_ms'', int_field d ''business_hours_start'',
            int_field d ''business_hours_end'', map_of d ''skip_weekends'',
            map_of d ''updated_at'') of
        (Some (BStr i), Some c, Some m, Some lo, Some hi, Some s, Some e, Some (BBool w),
         Some (BStr u)) \<Rightarrow>
          Inr \<lparr>config_id = i, daily_connection_limit = c, daily_message_limit = m,
               min_action_delay_ms = lo, max_action_delay_ms = hi,
               business_hours_start = s, business_hours_end = e, skip_weekends = w,
               updated_at = u\<rparr>
      | _ \<Rightarrow> Inl ValidationError)"

definition example_config :: document where
  "example_config = RateLimitConfig_dump (RateLimitConfig_default ''rl-1'' ''2026-01-05T08:00:00+00:00'')"

definition example_config_db :: database where
  "example_config_db = db_empty\<lparr>rate_limits := [example_config]\<rparr>"

definition no_update :: RateLimitConfigUpdate where
  "no_update =
     \<lparr>upd_daily_connection_limit = None, upd_daily_message_limit = None,
      upd_min_action_delay_ms = None, upd_max_action_delay_ms = None,
      upd_business_hours_start = None, upd_business_hours_end = None,
      upd_skip_weekends = None\<rparr>"

definition example_connection :: "string \<Rightarrow> string \<Rightarrow> document" where
  "example_connection i s =
     [(''id'', BStr i),
      (''profile_url'', BStr ''https://www.linkedin.com/in/someone''),
      (''status'', BStr s),
      (''created_at'', BStr ''2026-01-05T09:10:00+00:00'')]"

definition example_connections_db :: database where
  "example_connections_db =
     db_empty\<lparr>connections := [example_connection ''k-1'' ''accepted'',
                               example_connection ''k-2'' ''pending'',
                               example_connection ''k-3'' ''declined'']\<rparr>"

definition example_limits :: RateLimitConfig where
  "example_limits =
     (RateLimitConfig_default ''rl-1'' ''2026-01-05T08:00:00+00:00'')\<lparr>daily_connection_limit := 2\<rparr>"

definition example_history :: "(int \<times> action_kind \<times> bool) list" where
  "example_history =
     [(1, Connect, True), (1, Connect, True), (1, Connect, True), (1, FollowUp, False),
      (2, Connect, True)]"

definition stamp0 :: stamp where
  "stamp0 = \<lparr>uuid = ''log-1'', now = ''2026-01-05T10:00:01+00:00''\<rparr>"

section \<open>Facts about the document store\<close>

lemma map_of_set_fields:
  "map_of (set_fields upd d) k =
     (case map_of (rev upd) k of Some v \<Rightarrow> Some v | None \<Rightarrow> map_of d k)"
proof (induction upd arbitrary: d)
  case Nil
  then show ?case by (simp add: set_fields_def)
next
  case (Cons p upd)
  obtain a b where p: "p = (a, b)" by (cases p)
  have "set_fields (p # upd) d = set_fields upd (AList.update a b d)"
    by (simp add: set_fields_def p)
  then show ?case
    using Cons.IH [of "AList.update a b d"]
    by (auto simp: p update_conv' map_add_def split: option.splits)
qed

lemma matches_state_query:
  "matches state_query d = (map_of d ''id'' = Some (BStr ''automation_state''))"
  by (cases "map_of d ''id''") (auto simp: state_query_def)

lemma find_one_update_one_upsert:
  assumes keep: "\<And>d. matches q d \<Longrightarrow> matches q (set_fields upd d)"
    and fresh: "matches q (set_fields upd (eq_fields q))"
  shows "find_one q (apply_update q upd True coll) =
           Some (set_fields upd (case find_one q coll of Some d \<Rightarrow> d | None \<Rightarrow> eq_fields q))"
  using assms by (induction coll) auto

lemma stored_state_after_update:
  assumes "map_of (rev upd) ''id'' = None"
  shows "find_one state_query (apply_update state_query upd True (automation_state db)) =
           Some (set_fields upd (state_base db))"
proof -
  have keep: "\<And>d. matches state_query d \<Longrightarrow> matches state_query (set_fields upd d)"
    using assms by (simp add: matches_state_query map_of_set_fields)
  have "matches state_query (eq_fields state_query)"
    by (simp add: state_query_def)
  then have fresh: "matches state_query (set_fields upd (eq_fields state_query))"
    by (rule keep)
  show ?thesis
    unfolding state_base_def stored_state_def
    by (rule find_one_update_one_upsert [OF keep fresh])
qed

lemma update_one_encodable:
  "encodable_query q \<Longrightarrow> encodable_doc upd \<Longrightarrow>
   update_one q upd u coll = Inr (apply_update q upd u coll)"
  by (simp add: update_one_def)

lemma update_one_overflow:
  "\<not> encodable_doc upd \<Longrightarrow> update_one q upd u coll = Inl OverflowError"
  by (simp add: update_one_def)

lemma encodable_state_query: "encodable_query state_query"
  by (simp add: encodable_query_def state_query_def)

lemma log_activity_encodable:
  "encodable details \<Longrightarrow>
   log_activity st a d details s db =
     Inr (db\<lparr>activity_logs := activity_logs db @ [ActivityLog_dump st a d details s]\<rparr>)"
  by (simp add: log_activity_def insert_one_def encodable_doc_def ActivityLog_dump_def)

lemma start_automation_eq:
  "credentials_configured db \<Longrightarrow>
   start_automation t st db =
     (db\<lparr>automation_state :=
           apply_update state_query
             [(''status'', BStr ''running''), (''started_at'', BStr t), (''error_message'', BNull)]
             True (automation_state db),
         activity_logs := activity_logs db @
           [ActivityLog_dump st ''automation'' ''Automation started'' BNull ''success'']\<rparr>,
      Inr [(''message'', BStr ''Automation started''), (''status'', BStr ''running'')])"
  by (simp add: start_automation_def credentials_configured_def update_one_encodable
      encodable_state_query encodable_doc_def log_activity_encodable)

lemma stop_automation_eq:
  "stop_automation st db =
     (db\<lparr>automation_state :=
           apply_update state_query [(''status'', BStr ''idle''), (''current_task'', BNull)]
             True (automation_state db),
         activity_logs := activity_logs db @
           [ActivityLog_dump st ''automation'' ''Automation stopped'' BNull ''success'']\<rparr>,
      Inr [(''message'', BStr ''Automation stopped''), (''status'', BStr ''idle'')])"
  by (simp add: stop_automation_def update_one_encodable encodable_state_query
      encodable_doc_def log_activity_encodable)

lemma pause_automation_eq:
  "pause_automation st db =
     (db\<lparr>automation_state :=
           apply_update state_query [(''status'', BStr ''paused'')] True (automation_state db),
         activity_logs := activity_logs db @
           [ActivityLog_dump st ''automation'' ''Automation paused'' BNull ''success'']\<rparr>,
      Inr [(''message'', BStr ''Automation paused''), (''status'', BStr ''paused'')])"
  by (simp add: pause_automation_def update_one_encodable encodable_state_query
      encodable_doc_def log_activity_encodable)

lemma resume_automation_eq:
  "resume_automation st db =
     (db\<lparr>automation_state :=
           apply_update state_query [(''status'', BStr ''running'')] True (automation_state db),
         activity_logs := activity_logs db @
           [ActivityLog_dump st ''automation'' ''Automation resumed'' BNull ''success'']\<rparr>,
      Inr [(''message'', BStr ''Automation resumed''), (''status'', BStr ''running'')])"
  by (simp add: resume_automation_def update_one_encodable encodable_state_query
      encodable_doc_def log_activity_encodable)

lemma stored_state_stop:
  "stored_state (fst (stop_automation st db)) =
     Some (set_fields [(''status'', BStr ''idle''), (''current_task'', BNull)] (state_base db))"
  by (simp add: stop_automation_eq stored_state_def stored_state_after_update)

lemma stored_state_start:
  "credentials_configured db \<Longrightarrow>
   stored_state (fst (start_automation t st db)) =
     Some (set_fields [(''status'', BStr ''running''), (''started_at'', BStr t),
                       (''error_message'', BNull)] (state_base db))"
  by (simp add: start_automation_eq stored_state_def stored_state_after_update)

lemma stored_state_pause:
  "stored_state (fst (pause_automation st db)) =
     Some (set_fields [(''status'', BStr ''paused'')] (state_base db))"
  by (simp add: pause_automation_eq stored_state_def stored_state_after_update)

lemma stored_state_resume:
  "stored_state (fst (resume_automation st db)) =
     Some (set_fields [(''status'', BStr ''running'')] (state_base db))"
  by (simp add: resume_automation_eq stored_state_def stored_state_after_update)

lemma start_rejected:
  "\<not> credentials_configured db \<Longrightarrow>
   start_automation t st db = (db, Inl (HTTPException 400 ''LinkedIn credentials not configured''))"
  by (simp add: start_automation_def credentials_configured_def)

lemma start_response:
  "credentials_configured db \<Longrightarrow>
   snd (start_automation t st db) =
     Inr [(''message'', BStr ''Automation started''), (''status'', BStr ''running'')]"
  by (simp add: start_automation_eq)

lemma example_db_configured: "credentials_configured (example_db s)"
  by (simp add: credentials_configured_def example_db_def db_empty_def example_credentials_def)

lemma db_empty_not_configured: "\<not> credentials_configured db_empty"
  by (simp add: credentials_configured_def db_empty_def)

lemma stored_state_example: "stored_state (example_db s) = Some (example_state s)"
  by (simp add: stored_state_def example_db_def db_empty_def state_query_def example_state_def)

lemma start_logs:
  "credentials_configured db \<Longrightarrow>
   activity_logs (fst (start_automation t st db)) =
     activity_logs db @ [ActivityLog_dump st ''automation'' ''Automation started'' BNull ''success'']"
  by (simp add: start_automation_eq)

lemma stop_logs:
  "activity_logs (fst (stop_automation st db)) =
     activity_logs db @ [ActivityLog_dump st ''automation'' ''Automation stopped'' BNull ''success'']"
  by (simp add: stop_automation_eq)

lemma pause_logs:
  "activity_logs (fst (pause_automation st db)) =
     activity_logs db @ [ActivityLog_dump st ''automation'' ''Automation paused'' BNull ''success'']"
  by (simp add: pause_automation_eq)

lemma resume_logs:
  "activity_logs (fst (resume_automation st db)) =
     activity_logs db @ [ActivityLog_dump st ''automation'' ''Automation resumed'' BNull ''success'']"
  by (simp add: resume_automation_eq)

section \<open>Facts about the rate limit update\<close>

lemma map_of_rev_distinct:
  "distinct (map fst xs) \<Longrightarrow> map_of (rev xs) k = map_of xs k"
proof (induction xs)
  case Nil
  then show ?case by simp
next
  case (Cons p xs)
  obtain a b where p: "p = (a, b)" by (cases p)
  from Cons.prems have "a \<notin> fst ` set xs" and "distinct (map fst xs)"
    by (simp_all add: p)
  then have "map_of xs a = None" and "map_of (rev xs) k = map_of xs k"
    using Cons.IH by (simp_all add: map_of_eq_None_iff)
  then show ?case
    by (auto simp: p map_add_def split: option.splits)
qed

lemma map_of_filter_values:
  "distinct (map fst xs) \<Longrightarrow>
   map_of (filter (\<lambda>(k, v). P v) xs) k =
     (case map_of xs k of None \<Rightarrow> None | Some v \<Rightarrow> if P v then Some v else None)"
proof (induction xs)
  case Nil
  then show ?case by simp
next
  case (Cons p xs)
  obtain a b where p: "p = (a, b)" by (cases p)
  from Cons.prems have "a \<notin> fst ` set xs"
    by (simp add: p)
  then have "a \<notin> fst ` set (filter (\<lambda>(k, v). P v) xs)"
    by auto
  then have "map_of (filter (\<lambda>(k, v). P v) xs) a = None"
    by (simp add: map_of_eq_None_iff)
  with Cons show ?case
    by (simp add: p)
qed

lemma opt_int_null [simp]: "(opt_int x = BNull) = (x = None)"
  by (cases x) simp_all

lemma opt_bool_null [simp]: "(opt_bool x = BNull) = (x = None)"
  by (cases x) simp_all

lemma opt_int_map: "x \<noteq> None \<Longrightarrow> Some (opt_int x) = map_option BInt x"
  by (cases x) simp_all

lemma opt_bool_map: "x \<noteq> None \<Longrightarrow> Some (opt_bool x) = map_option BBool x"
  by (cases x) simp_all

lemma update_data_keys: "distinct (map fst (update_data_of c t))"
proof -
  have "distinct (map fst (RateLimitConfigUpdate_dump c))"
    by (simp add: RateLimitConfigUpdate_dump_def)
  then have "distinct (map fst (filter (\<lambda>(k, v). v \<noteq> BNull) (RateLimitConfigUpdate_dump c)))"
    by (rule distinct_map_filter)
  moreover have "''updated_at'' \<notin> fst ` set (RateLimitConfigUpdate_dump c)"
    by (simp add: RateLimitConfigUpdate_dump_def)
  then have "''updated_at'' \<notin> fst ` set (filter (\<lambda>(k, v). v \<noteq> BNull) (RateLimitConfigUpdate_dump c))"
    by auto
  ultimately show ?thesis
    by (simp add: update_data_of_def)
qed

lemma map_of_dump_filtered:
  "map_of (filter (\<lambda>(k, v). v \<noteq> BNull) (RateLimitConfigUpdate_dump c)) k = supplied_value c k"
proof -
  have "distinct (map fst (RateLimitConfigUpdate_dump c))"
    by (simp add: RateLimitConfigUpdate_dump_def)
  then have "map_of (filter (\<lambda>(k, v). v \<noteq> BNull) (RateLimitConfigUpdate_dump c)) k =
      (case map_of (RateLimitConfigUpdate_dump c) k of None \<Rightarrow> None
       | Some v \<Rightarrow> if v \<noteq> BNull then Some v else None)"
    by (rule map_of_filter_values)
  also have "\<dots> = supplied_value c k"
    by (simp add: RateLimitConfigUpdate_dump_def supplied_value_def opt_int_map opt_bool_map)
  finally show ?thesis .
qed

lemma map_of_update_data:
  "map_of (update_data_of c t) k =
     (if k = ''updated_at'' then Some (BStr t) else supplied_value c k)"
proof (cases "supplied_value c k")
  case None
  then show ?thesis
    by (simp add: update_data_of_def map_add_def map_of_dump_filtered)
next
  case (Some v)
  then have "k \<noteq> ''updated_at''"
    by (auto simp: supplied_value_def)
  with Some show ?thesis
    by (simp add: update_data_of_def map_add_def map_of_dump_filtered)
qed

lemma map_of_set_update_data:
  "map_of (set_fields (update_data_of c t) e) k =
     (if k = ''updated_at'' then Some (BStr t)
      else case supplied_value c k of Some v \<Rightarrow> Some v | None \<Rightarrow> map_of e k)"
  by (simp add: map_of_set_fields map_of_rev_distinct [OF update_data_keys] map_of_update_data)

lemma int64_small: "- 9223372036854775808 \<le> n \<Longrightarrow> n < 9223372036854775808 \<Longrightarrow> int64 n"
  by (simp add: int64_def)

lemma encodable_opt_int: "encodable (opt_int x) = fits x"
  by (cases x) (simp_all add: fits_def)

lemma encodable_opt_bool: "encodable (opt_bool x)"
  by (cases x) simp_all

lemma fits_or_none: "(x = None \<or> fits x) = fits x"
  by (cases x) (simp_all add: fits_def)

lemma encodable_update_data: "encodable_doc (update_data_of c t) = request_fits c"
  by (auto simp: encodable_doc_def update_data_of_def RateLimitConfigUpdate_dump_def
      request_fits_def encodable_opt_int encodable_opt_bool fits_def)

lemma int64_default:
  "int64 d \<Longrightarrow> int64 (case x of Some n \<Rightarrow> n | None \<Rightarrow> d) = fits x"
  by (cases x) (simp_all add: fits_def)

lemma encodable_new_config:
  "encodable_doc (RateLimitConfig_dump (RateLimitConfig_new fresh c t)) = request_fits c"
  by (simp add: encodable_doc_def RateLimitConfig_dump_def RateLimitConfig_new_def
      request_fits_def int64_default int64_small conj_ac)


lemma log_update_data:
  "request_fits c \<Longrightarrow>
   log_activity st a d (BDoc (update_data_of c t)) s db =
     Inr (db\<lparr>activity_logs := activity_logs db @
            [ActivityLog_dump st a d (BDoc (update_data_of c t)) s]\<rparr>)"
proof -
  assume "request_fits c"
  then have "encodable_doc (update_data_of c t)"
    by (simp add: encodable_update_data)
  then have "encodable (BDoc (update_data_of c t))"
    by (simp add: encodable_doc_def)
  then show ?thesis
    by (rule log_activity_encodable)
qed

lemma update_rate_limits_existing:
  assumes "rate_limits db = e # rest" and "map_of e ''id'' = Some i" and "encodable i"
    and "request_fits c"
  shows "fst (update_rate_limits validate t fresh st c db) =
           db\<lparr>rate_limits := set_fields (update_data_of c t) e # rest,
              activity_logs := activity_logs db @
                [ActivityLog_dump st ''config'' ''Rate limits updated''
                   (BDoc (update_data_of c t)) ''success'']\<rparr>"
proof -
  have "e \<noteq> []" using assms(2) by auto
  moreover have "update_one [(''id'', Eq i)] (update_data_of c t) False (rate_limits db) =
      Inr (set_fields (update_data_of c t) e # rest)"
    using assms by (simp add: update_one_def encodable_query_def encodable_update_data)
  ultimately show ?thesis
    using assms
    by (simp add: update_rate_limits_def Let_def log_update_data del: encodable.simps)
qed


lemma update_rate_limits_overflow_existing:
  assumes "rate_limits db = e # rest" and "map_of e ''id'' = Some i" and "\<not> request_fits c"
  shows "update_rate_limits validate t fresh st c db = (db, Inl OverflowError)"
proof -
  have "e \<noteq> []" using assms(2) by auto
  then show ?thesis
    using assms
    by (simp add: update_rate_limits_def Let_def update_one_overflow encodable_update_data)
qed

lemma update_rate_limits_overflow_new:
  assumes "rate_limits db = []" and "\<not> request_fits c"
  shows "update_rate_limits validate t fresh st c db = (db, Inl OverflowError)"
  using assms
  by (simp add: update_rate_limits_def Let_def insert_one_def encodable_new_config)








section \<open>Facts about the dashboard\<close>

lemma success_rate_of_total:
  "success_rate_of ops a n =
     Inr (if 0 < n then fmul ops (fdiv ops a n) 100 else fzero ops)"
  by (simp add: success_rate_of_def truediv_def)

lemma count_documents_nonneg: "0 \<le> count_documents q coll"
  by (simp add: count_documents_def)

lemma round_zero_rat: "fround rat_ops (fzero rat_ops) 1 = fzero rat_ops"
  by (simp add: rat_ops_def round_half_even_def)

section \<open>Facts about the limiter\<close>

lemma sorted_le_last:
  fixes xs :: "int list"
  shows "sorted xs \<Longrightarrow> x \<in> set xs \<Longrightarrow> x \<le> last xs"
  by (induction xs) auto

lemma consumed_on_snoc:
  "consumed_on (cs @ [c]) d k = consumed_on cs d k + (if c = (d, k) then 1 else 0)"
  by (simp add: consumed_on_def)

lemma consumed_on_none: "(d, k) \<notin> set cs \<Longrightarrow> consumed_on cs d k = 0"
  by (auto simp: consumed_on_def filter_empty_conv)

lemma consumed_on_day_none: "d \<notin> fst ` set cs \<Longrightarrow> consumed_on cs d k = 0"
  by (rule consumed_on_none) force

lemma limiter_run_snoc:
  "limiter_run cfg (h @ [a]) = limiter_step cfg (limiter_run cfg h) a"
  by (simp add: limiter_run_def)

lemma count_today_roll_same:
  "lim_last_action_day s = Some d \<Longrightarrow> roll_day d s = s"
  by (simp add: roll_day_def)

lemma count_today_roll_other:
  "lim_last_action_day s \<noteq> Some d \<Longrightarrow> count_today (roll_day d s) k = 0"
  by (cases k) (simp_all add: roll_day_def)

lemma last_day_roll [simp]: "lim_last_action_day (roll_day d s) = lim_last_action_day s"
  by (simp add: roll_day_def)

lemma count_today_record_success:
  "count_today (record_success k d s) k' = count_today s k' + (if k' = k then 1 else 0)"
  by (cases k; cases k') simp_all

lemma last_day_record_success [simp]:
  "lim_last_action_day (record_success k d s) = Some d"
  by (cases k) simp_all

lemma limiter_inv_step:
  assumes srt: "sorted (map fst (h @ [a]))"
    and lim: "0 \<le> limit_of cfg Connect" "0 \<le> limit_of cfg FollowUp"
    and inv: "limiter_inv cfg h r"
  shows "limiter_inv cfg (h @ [a]) (limiter_step cfg r a)"
proof -
  obtain s cs where r: "r = (s, cs)" by (cases r)
  obtain d k ok where a: "a = (d, k, ok)" by (cases a)
  from srt have srt_h: "sorted (map fst h)" and le_d: "\<forall>x\<in>set h. fst x \<le> d"
    by (auto simp: a sorted_append)
  from inv have i1: "lim_last_action_day s = (if cs = [] then None else Some (fst (last cs)))"
    and i2: "sorted (map fst cs)"
    and i3: "fst ` set cs \<subseteq> fst ` set h"
    and i4: "\<And>d k. consumed_on cs d k \<le> limit_of cfg k"
    and i5: "h \<noteq> [] \<Longrightarrow> count_today s k' = consumed_on cs (fst (last h)) k'" for k'
    by (simp_all add: limiter_inv_def r)
  have cs_le: "\<forall>c\<in>set cs. fst c \<le> d"
  proof
    fix c assume "c \<in> set cs"
    then have "fst c \<in> fst ` set h" using i3 by auto
    then obtain x where "x \<in> set h" "fst x = fst c" by auto
    with le_d show "fst c \<le> d" by auto
  qed
  let ?s1 = "roll_day d s"
  have cnt: "count_today ?s1 k' = consumed_on cs d k'" for k'
  proof (cases "lim_last_action_day s = Some d")
    case True
    with i1 have ne: "cs \<noteq> []" and ld: "fst (last cs) = d"
      by (auto split: if_splits)
    then have "d \<in> fst ` set cs"
      using last_in_set [OF ne] by force
    with i3 obtain x where x: "x \<in> set h" "fst x = d"
      by auto
    then have hne: "h \<noteq> []" by auto
    have "fst x \<le> last (map fst h)"
      using srt_h x(1) by (intro sorted_le_last) auto
    then have "d \<le> fst (last h)"
      using hne x(2) by (simp add: last_map)
    moreover have "fst (last h) \<le> d"
      using le_d hne by simp
    ultimately have "fst (last h) = d" by simp
    with i5 [OF hne] True show ?thesis
      by (simp add: count_today_roll_same)
  next
    case False
    have "d \<notin> fst ` set cs"
    proof
      assume din: "d \<in> fst ` set cs"
      then have ne: "cs \<noteq> []" by auto
      from din have "d \<le> last (map fst cs)"
        using i2 by (intro sorted_le_last) auto
      then have "d \<le> fst (last cs)"
        using ne by (simp add: last_map)
      moreover have "fst (last cs) \<le> d"
        using cs_le ne by simp
      ultimately have "fst (last cs) = d" by simp
      with i1 ne False show False by simp
    qed
    then show ?thesis
      using False by (simp add: count_today_roll_other consumed_on_day_none)
  qed
  show ?thesis
  proof (cases "TryConsume cfg ?s1 k \<and> ok")
    case True
    then have step: "limiter_step cfg r a = (record_success k d ?s1, cs @ [(d, k)])"
      by (simp add: limiter_step_def r a Let_def)
    from True have room: "consumed_on cs d k < limit_of cfg k"
      by (simp add: TryConsume_def cnt)
    have "sorted (map fst (cs @ [(d, k)]))"
      using i2 cs_le by (simp add: sorted_append)
    moreover have "fst ` set (cs @ [(d, k)]) \<subseteq> fst ` set (h @ [a])"
      using i3 by (auto simp: a)
    moreover have "consumed_on (cs @ [(d, k)]) d' k' \<le> limit_of cfg k'" for d' k'
      using i4 [of d' k'] room by (auto simp: consumed_on_snoc)
    moreover have "count_today (record_success k d ?s1) k' =
        consumed_on (cs @ [(d, k)]) (fst (last (h @ [a]))) k'" for k'
      by (simp add: a count_today_record_success consumed_on_snoc cnt)
    ultimately show ?thesis
      by (simp add: limiter_inv_def step)
  next
    case False
    then have step: "limiter_step cfg r a = (?s1, cs)"
      by (auto simp: limiter_step_def r a Let_def)
    have "fst ` set cs \<subseteq> fst ` set (h @ [a])"
      using i3 by auto
    moreover have "count_today ?s1 k' = consumed_on cs (fst (last (h @ [a]))) k'" for k'
      by (simp add: a cnt)
    ultimately show ?thesis
      using i1 i2 i4 by (simp add: limiter_inv_def step)
  qed
qed

lemma limiter_inv_run:
  assumes "sorted (map fst h)"
    and "0 \<le> limit_of cfg Connect" "0 \<le> limit_of cfg FollowUp"
  shows "limiter_inv cfg h (limiter_run cfg h)"
  using assms(1)
proof (induction h rule: rev_induct)
  case Nil
  have "0 \<le> limit_of cfg k" for k
    using assms(2,3) by (cases k) simp_all
  then show ?case
    by (simp add: limiter_inv_def limiter_run_def limiter_initial_def consumed_on_def)
next
  case (snoc a h)
  from snoc.prems have "sorted (map fst h)"
    by (simp add: sorted_append)
  then have "limiter_inv cfg h (limiter_run cfg h)"
    by (rule snoc.IH)
  then show ?case
    unfolding limiter_run_snoc
    by (rule limiter_inv_step [OF snoc.prems assms(2,3)])
qed

section \<open>Lifecycle commands\<close>

text \<open>
  Claim C1. Start without configured credentials fails with the error the handler raises
  for a missing configuration (HTTP 400, "LinkedIn credentials not configured") and
  returns the database as it was; Start with configured credentials leaves a stored
  state whose status is running and whose error message is null.
\<close>

theorem start_automation_credentials:
  "(\<not> credentials_configured db \<longrightarrow>
      start_automation t st db =
        (db, Inl (HTTPException 400 ''LinkedIn credentials not configured'')))
   \<and> (credentials_configured db \<longrightarrow>
        (\<exists>d. stored_state (fst (start_automation t st db)) = Some d
            \<and> map_of d ''status'' = Some (BStr (AutomationStatus_value RUNNING))
            \<and> map_of d ''error_message'' = Some BNull))"
  by (simp add: start_rejected stored_state_start map_of_set_fields)

text \<open>Claim C1, at the empty database and at a configured one whose state is in error.\<close>

theorem start_automation_credentials_witness:
  "\<not> credentials_configured db_empty
   \<and> start_automation ''2026-01-05T10:00:00+00:00'' stamp0 db_empty =
       (db_empty, Inl (HTTPException 400 ''LinkedIn credentials not configured''))
   \<and> credentials_configured (example_db ERROR)
   \<and> (\<exists>d. stored_state (fst (start_automation ''2026-01-05T10:00:00+00:00'' stamp0 (example_db ERROR))) = Some d
          \<and> map_of d ''status'' = Some (BStr (AutomationStatus_value RUNNING))
          \<and> map_of d ''error_message'' = Some BNull)"
  using start_automation_credentials [of db_empty "''2026-01-05T10:00:00+00:00''" stamp0]
    start_automation_credentials [of "example_db ERROR" "''2026-01-05T10:00:00+00:00''" stamp0]
    db_empty_not_configured example_db_configured [of ERROR]
  by simp

text \<open>
  Claim C2, as the code has it. Pause and Resume do not look at the current status:
  whatever the state, Pause answers with its success message and stores status paused,
  Resume answers with its success message and stores status running.
\<close>

theorem pause_resume_unconditional:
  "snd (pause_automation st db) =
     Inr [(''message'', BStr ''Automation paused''), (''status'', BStr ''paused'')]
   \<and> (\<exists>d. stored_state (fst (pause_automation st db)) = Some d
          \<and> map_of d ''status'' = Some (BStr (AutomationStatus_value PAUSED)))
   \<and> snd (resume_automation st db) =
     Inr [(''message'', BStr ''Automation resumed''), (''status'', BStr ''running'')]
   \<and> (\<exists>d. stored_state (fst (resume_automation st db)) = Some d
          \<and> map_of d ''status'' = Some (BStr (AutomationStatus_value RUNNING)))"
  by (simp add: stored_state_pause stored_state_resume map_of_set_fields)
   (simp add: pause_automation_eq resume_automation_eq)

text \<open>
  Claim C2 as stated fails: from an idle state Pause and Resume both succeed and change
  the stored status, where the claim asks for an invalid-transition signal and no change.
\<close>

theorem pause_resume_unguarded_counterexample:
  "stored_state (example_db IDLE) = Some (example_state IDLE)
   \<and> snd (pause_automation stamp0 (example_db IDLE)) =
       Inr [(''message'', BStr ''Automation paused''), (''status'', BStr ''paused'')]
   \<and> stored_state (fst (pause_automation stamp0 (example_db IDLE))) = Some (example_state PAUSED)
   \<and> snd (resume_automation stamp0 (example_db IDLE)) =
       Inr [(''message'', BStr ''Automation resumed''), (''status'', BStr ''running'')]
   \<and> stored_state (fst (resume_automation stamp0 (example_db IDLE))) = Some (example_state RUNNING)"
  by (simp add: stored_state_example stored_state_pause stored_state_resume state_base_def)
   (simp add: pause_automation_eq resume_automation_eq set_fields_def example_state_def)

text \<open>
  Claim C3. From a stored state whose status is running or paused, Stop leaves a stored
  state with status idle and a null current task, and its response reports idle.
\<close>

theorem stop_automation_idle:
  assumes "stored_state db = Some d"
    and "map_of d ''status'' = Some (BStr (AutomationStatus_value RUNNING))
         \<or> map_of d ''status'' = Some (BStr (AutomationStatus_value PAUSED))"
  shows "\<exists>d'. stored_state (fst (stop_automation st db)) = Some d'
           \<and> map_of d' ''status'' = Some (BStr (AutomationStatus_value IDLE))
           \<and> map_of d' ''current_task'' = Some BNull
           \<and> snd (stop_automation st db) =
               Inr [(''message'', BStr ''Automation stopped''), (''status'', BStr ''idle'')]"
proof -
  have "snd (stop_automation st db) =
          Inr [(''message'', BStr ''Automation stopped''), (''status'', BStr ''idle'')]"
    by (simp add: stop_automation_eq)
  then show ?thesis
    by (simp add: stored_state_stop map_of_set_fields)
qed

text \<open>Claim C3, at a running state with a current task.\<close>

theorem stop_automation_idle_witness:
  "stored_state (example_db RUNNING) = Some (example_state RUNNING)
   \<and> map_of (example_state RUNNING) ''status'' = Some (BStr (AutomationStatus_value RUNNING))
   \<and> (\<exists>d'. stored_state (fst (stop_automation stamp0 (example_db RUNNING))) = Some d'
           \<and> map_of d' ''status'' = Some (BStr (AutomationStatus_value IDLE))
           \<and> map_of d' ''current_task'' = Some BNull
           \<and> snd (stop_automation stamp0 (example_db RUNNING)) =
               Inr [(''message'', BStr ''Automation stopped''), (''status'', BStr ''idle'')])"
proof -
  have s: "stored_state (example_db RUNNING) = Some (example_state RUNNING)"
    by (rule stored_state_example)
  have r: "map_of (example_state RUNNING) ''status'' = Some (BStr (AutomationStatus_value RUNNING))"
    by (simp add: example_state_def)
  show ?thesis
    using s r stop_automation_idle [OF s disjI1 [OF r], of stamp0] by simp
qed

text \<open>
  Claim C6, as the code has it. Every lifecycle command that goes through (Start with
  configured credentials, Stop, Pause, Resume) appends exactly one activity log entry,
  of status success, and stores the updated state document. A Start rejected for
  missing credentials raises before anything is written: it returns the database as
  it was, with no log entry.
\<close>

theorem lifecycle_logging:
  "(credentials_configured db \<longrightarrow>
      activity_logs (fst (start_automation t st db)) =
        activity_logs db @ [ActivityLog_dump st ''automation'' ''Automation started'' BNull ''success'']
      \<and> stored_state (fst (start_automation t st db)) =
          Some (set_fields [(''status'', BStr ''running''), (''started_at'', BStr t),
                            (''error_message'', BNull)] (state_base db)))
   \<and> (\<not> credentials_configured db \<longrightarrow>
        start_automation t st db =
          (db, Inl (HTTPException 400 ''LinkedIn credentials not configured'')))
   \<and> activity_logs (fst (stop_automation st db)) =
        activity_logs db @ [ActivityLog_dump st ''automation'' ''Automation stopped'' BNull ''success'']
   \<and> stored_state (fst (stop_automation st db)) =
        Some (set_fields [(''status'', BStr ''idle''), (''current_task'', BNull)] (state_base db))
   \<and> activity_logs (fst (pause_automation st db)) =
        activity_logs db @ [ActivityLog_dump st ''automation'' ''Automation paused'' BNull ''success'']
   \<and> stored_state (fst (pause_automation st db)) =
        Some (set_fields [(''status'', BStr ''paused'')] (state_base db))
   \<and> activity_logs (fst (resume_automation st db)) =
        activity_logs db @ [ActivityLog_dump st ''automation'' ''Automation resumed'' BNull ''success'']
   \<and> stored_state (fst (resume_automation st db)) =
        Some (set_fields [(''status'', BStr ''running'')] (state_base db))"
  using start_logs [of db t st] stored_state_start [of db t st] start_rejected [of db t st]
    stop_logs [of st db] stored_state_stop [of st db] pause_logs [of st db]
    stored_state_pause [of st db] resume_logs [of st db] stored_state_resume [of st db]
  by simp

text \<open>Claim C6, at a configured idle database and at the empty one.\<close>

theorem lifecycle_logging_witness:
  "credentials_configured (example_db IDLE)
   \<and> activity_logs (fst (start_automation ''2026-01-05T10:00:00+00:00'' stamp0 (example_db IDLE))) =
       [ActivityLog_dump stamp0 ''automation'' ''Automation started'' BNull ''success'']
   \<and> \<not> credentials_configured db_empty
   \<and> fst (start_automation ''2026-01-05T10:00:00+00:00'' stamp0 db_empty) = db_empty"
  using lifecycle_logging [of "example_db IDLE" "''2026-01-05T10:00:00+00:00''" stamp0]
    lifecycle_logging [of db_empty "''2026-01-05T10:00:00+00:00''" stamp0]
    example_db_configured [of IDLE] db_empty_not_configured
  by (simp add: example_db_def db_empty_def)

text \<open>
  Claim C6 as stated fails: the Start rejected at the empty database is a failure, yet
  the activity log is as empty after it as before.
\<close>

theorem rejected_start_unlogged_counterexample:
  "snd (start_automation ''2026-01-05T10:00:00+00:00'' stamp0 db_empty) =
     Inl (HTTPException 400 ''LinkedIn credentials not configured'')
   \<and> activity_logs db_empty = []
   \<and> activity_logs (fst (start_automation ''2026-01-05T10:00:00+00:00'' stamp0 db_empty)) = []"
  by (simp add: start_rejected db_empty_not_configured) (simp add: db_empty_def)

text \<open>
  Claim C7, as the code has it. A Start with configured credentials while the stored
  status is already running keeps the status and every field other than the start time
  and the error message, but it overwrites \<^verbatim>\<open>started_at\<close> with the current time and
  \<^verbatim>\<open>error_message\<close> with null, and answers with the fixed start message.
\<close>

theorem restart_while_running:
  assumes "credentials_configured db"
    and "stored_state db = Some d"
    and "map_of d ''status'' = Some (BStr (AutomationStatus_value RUNNING))"
  shows "\<exists>d'. stored_state (fst (start_automation t st db)) = Some d'
           \<and> map_of d' ''status'' = Some (BStr (AutomationStatus_value RUNNING))
           \<and> map_of d' ''started_at'' = Some (BStr t)
           \<and> map_of d' ''error_message'' = Some BNull
           \<and> (\<forall>k. k \<noteq> ''status'' \<and> k \<noteq> ''started_at'' \<and> k \<noteq> ''error_message''
                  \<longrightarrow> map_of d' k = map_of d k)
           \<and> snd (start_automation t st db) =
               Inr [(''message'', BStr ''Automation started''), (''status'', BStr ''running'')]"
  using assms
  by (simp add: stored_state_start start_response map_of_set_fields state_base_def)

text \<open>Claim C7, at a running state: the day counter is kept, the start time is new.\<close>

theorem restart_while_running_witness:
  "credentials_configured (example_db RUNNING)
   \<and> stored_state (example_db RUNNING) = Some (example_state RUNNING)
   \<and> map_of (example_state RUNNING) ''status'' = Some (BStr (AutomationStatus_value RUNNING))
   \<and> (\<exists>d'. stored_state (fst (start_automation ''2026-01-05T10:00:00+00:00'' stamp0 (example_db RUNNING))) = Some d'
           \<and> map_of d' ''started_at'' = Some (BStr ''2026-01-05T10:00:00+00:00'')
           \<and> map_of d' ''connections_today'' = Some (BInt 3))"
proof -
  have c: "credentials_configured (example_db RUNNING)"
    by (rule example_db_configured)
  have s: "stored_state (example_db RUNNING) = Some (example_state RUNNING)"
    by (rule stored_state_example)
  have r: "map_of (example_state RUNNING) ''status'' = Some (BStr (AutomationStatus_value RUNNING))"
    by (simp add: example_state_def)
  obtain d' where d': "stored_state (fst (start_automation ''2026-01-05T10:00:00+00:00'' stamp0 (example_db RUNNING))) = Some d'"
    "map_of d' ''started_at'' = Some (BStr ''2026-01-05T10:00:00+00:00'')"
    "\<forall>k. k \<noteq> ''status'' \<and> k \<noteq> ''started_at'' \<and> k \<noteq> ''error_message''
                  \<longrightarrow> map_of d' k = map_of (example_state RUNNING) k"
    using restart_while_running [OF c s r, of "''2026-01-05T10:00:00+00:00''" stamp0] by blast
  from d'(3) have "map_of d' ''connections_today'' = map_of (example_state RUNNING) ''connections_today''"
    by simp
  then have "map_of d' ''connections_today'' = Some (BInt 3)"
    by (simp add: example_state_def)
  with c s r d'(1,2) show ?thesis by blast
qed

text \<open>
  Claim C7 as stated fails: after a second Start the stored start time is the time of
  the second Start, not the one the running state had.
\<close>

theorem restart_overwrites_started_at_counterexample:
  "credentials_configured (example_db RUNNING)
   \<and> stored_state (example_db RUNNING) = Some (example_state RUNNING)
   \<and> map_of (example_state RUNNING) ''started_at'' = Some (BStr ''2026-01-05T09:00:00+00:00'')
   \<and> stored_state (fst (start_automation ''2026-01-05T10:00:00+00:00'' stamp0 (example_db RUNNING))) =
       Some [(''id'', BStr ''automation_state''),
             (''status'', BStr ''running''),
             (''current_task'', BStr ''searching''),
             (''connections_today'', BInt 3),
             (''messages_today'', BInt 1),
             (''last_action_at'', BStr ''2026-01-05T09:30:00+00:00''),
             (''started_at'', BStr ''2026-01-05T10:00:00+00:00''),
             (''error_message'', BNull)]
   \<and> snd (start_automation ''2026-01-05T10:00:00+00:00'' stamp0 (example_db RUNNING)) =
       Inr [(''message'', BStr ''Automation started''), (''status'', BStr ''running'')]"
  by (simp add: example_db_configured stored_state_example stored_state_start start_response
      state_base_def)
   (simp add: example_state_def set_fields_def)

section \<open>Credentials status\<close>

text \<open>
  Claim C8. The response of the credentials status endpoint has exactly the keys
  configured, email and updated_at; and two stored credentials documents that agree on
  every field but the password value give the same response.
\<close>

theorem get_credentials_hides_password:
  assumes "\<forall>k. k \<noteq> ''password'' \<longrightarrow> map_of ca k = map_of cb k"
    and "map_of ca ''password'' = Some pa"
    and "map_of cb ''password'' = Some pb"
  shows "map fst (get_credentials db) = [''configured'', ''email'', ''updated_at'']
         \<and> get_credentials (dba\<lparr>credentials := ca # ra\<rparr>) =
             get_credentials (dbb\<lparr>credentials := cb # rb\<rparr>)"
proof -
  have keys: "map fst (get_credentials db) = [''configured'', ''email'', ''updated_at'']"
    by (simp add: get_credentials_def credentials_absent_def split: option.splits)
  have ne: "ca \<noteq> []" "cb \<noteq> []"
    using assms(2,3) by auto
  have "map_of ca ''email'' = map_of cb ''email''" "map_of ca ''updated_at'' = map_of cb ''updated_at''"
    using assms(1) by simp_all
  then have "get_credentials (dba\<lparr>credentials := ca # ra\<rparr>) =
             get_credentials (dbb\<lparr>credentials := cb # rb\<rparr>)"
    using ne by (simp add: get_credentials_def dict_get_def)
  with keys show ?thesis by simp
qed

text \<open>Claim C8, at two credentials documents with different passwords.\<close>

theorem get_credentials_hides_password_witness:
  "AList.delete ''password'' (example_credentials ''hunter2'') =
     AList.delete ''password'' (example_credentials ''swordfish'')
   \<and> map_of (example_credentials ''hunter2'') ''password'' = Some (BStr ''hunter2'')
   \<and> map_of (example_credentials ''swordfish'') ''password'' = Some (BStr ''swordfish'')
   \<and> get_credentials (db_empty\<lparr>credentials := [example_credentials ''hunter2'']\<rparr>) =
       get_credentials (db_empty\<lparr>credentials := [example_credentials ''swordfish'']\<rparr>)
   \<and> get_credentials (db_empty\<lparr>credentials := [example_credentials ''hunter2'']\<rparr>) =
       [(''configured'', BBool True), (''email'', BStr ''user@example.com''),
        (''updated_at'', BStr ''2026-01-05T08:00:00+00:00'')]"
proof -
  have a: "\<forall>k. k \<noteq> ''password'' \<longrightarrow>
        map_of (example_credentials ''hunter2'') k = map_of (example_credentials ''swordfish'') k"
    by (simp add: example_credentials_def)
  have b: "map_of (example_credentials ''hunter2'') ''password'' = Some (BStr ''hunter2'')"
    by (simp add: example_credentials_def)
  have c: "map_of (example_credentials ''swordfish'') ''password'' = Some (BStr ''swordfish'')"
    by (simp add: example_credentials_def)
  have d: "get_credentials (db_empty\<lparr>credentials := [example_credentials ''hunter2'']\<rparr>) =
       [(''configured'', BBool True), (''email'', BStr ''user@example.com''),
        (''updated_at'', BStr ''2026-01-05T08:00:00+00:00'')]"
    by (simp add: get_credentials_def example_credentials_def dict_get_def)
  have e: "AList.delete ''password'' (example_credentials ''hunter2'') =
     AList.delete ''password'' (example_credentials ''swordfish'')"
    by (simp add: example_credentials_def)
  show ?thesis
    using b c d e
      get_credentials_hides_password [OF a b c, where db = db_empty and dba = db_empty
        and dbb = db_empty and ra = "[]" and rb = "[]"]
    by blast
qed

section \<open>Rate limit configuration\<close>

text \<open>
  Claim C9, as the code has it. When a configuration with an id is stored and every
  integer of the request fits in 8 bytes, the update endpoint replaces the stored
  document by one in which \<^verbatim>\<open>updated_at\<close> is the current time, every field supplied
  with a non-null value has that value, and every other field is what it was; the
  documents behind it in the collection are untouched. When an integer of the request
  does not fit, the write raises \<^verbatim>\<open>OverflowError\<close> and the database stays as it was.
\<close>

theorem update_rate_limits_frame:
  assumes "rate_limits db = e # rest" and "map_of e ''id'' = Some i" and "encodable i"
  shows "(request_fits c \<longrightarrow>
            (\<exists>e'. rate_limits (fst (update_rate_limits validate t fresh st c db)) = e' # rest
                \<and> (\<forall>k. map_of e' k =
                       (if k = ''updated_at'' then Some (BStr t)
                        else case supplied_value c k of Some v \<Rightarrow> Some v
                             | None \<Rightarrow> map_of e k))))
         \<and> (\<not> request_fits c \<longrightarrow>
              update_rate_limits validate t fresh st c db = (db, Inl OverflowError))"
proof (intro conjI impI)
  assume "request_fits c"
  then show "\<exists>e'. rate_limits (fst (update_rate_limits validate t fresh st c db)) = e' # rest
                \<and> (\<forall>k. map_of e' k =
                       (if k = ''updated_at'' then Some (BStr t)
                        else case supplied_value c k of Some v \<Rightarrow> Some v
                             | None \<Rightarrow> map_of e k))"
    by (simp add: update_rate_limits_existing [OF assms] map_of_set_update_data)
next
  assume "\<not> request_fits c"
  then show "update_rate_limits validate t fresh st c db = (db, Inl OverflowError)"
    by (rule update_rate_limits_overflow_existing [OF assms(1,2)])
qed

text \<open>
  Claim C9, at the default configuration: with only the message limit supplied, and
  with a message limit of \<open>2 ^ 63\<close>.
\<close>

theorem update_rate_limits_frame_witness:
  "rate_limits example_config_db = example_config # []
   \<and> map_of example_config ''id'' = Some (BStr ''rl-1'')
   \<and> encodable (BStr ''rl-1'')
   \<and> request_fits (no_update\<lparr>upd_daily_message_limit := Some 200\<rparr>)
   \<and> (\<exists>e'. rate_limits (fst (update_rate_limits validate_strict ''2026-01-05T10:00:00+00:00''
                ''rl-2'' stamp0 (no_update\<lparr>upd_daily_message_limit := Some 200\<rparr>)
                example_config_db)) = [e']
          \<and> map_of e' ''daily_message_limit'' = Some (BInt 200)
          \<and> map_of e' ''daily_connection_limit'' = Some (BInt 50)
          \<and> map_of e' ''skip_weekends'' = Some (BBool True)
          \<and> map_of e' ''updated_at'' = Some (BStr ''2026-01-05T10:00:00+00:00''))
   \<and> \<not> request_fits (no_update\<lparr>upd_daily_message_limit := Some 9223372036854775808\<rparr>)
   \<and> update_rate_limits validate_strict ''2026-01-05T10:00:00+00:00'' ''rl-2'' stamp0
         (no_update\<lparr>upd_daily_message_limit := Some 9223372036854775808\<rparr>) example_config_db =
       (example_config_db, Inl OverflowError)"
proof -
  have a: "rate_limits example_config_db = example_config # []"
    by (simp add: example_config_db_def db_empty_def)
  have b: "map_of example_config ''id'' = Some (BStr ''rl-1'')"
    by (simp add: example_config_def RateLimitConfig_dump_def RateLimitConfig_default_def)
  have i: "encodable (BStr ''rl-1'')"
    by simp
  let ?c = "no_update\<lparr>upd_daily_message_limit := Some 200\<rparr>"
  let ?big = "no_update\<lparr>upd_daily_message_limit := Some 9223372036854775808\<rparr>"
  have f: "request_fits ?c"
    by (simp add: request_fits_def fits_def no_update_def int64_def)
  have g: "\<not> request_fits ?big"
    by (simp add: request_fits_def fits_def no_update_def int64_def)
  obtain e' where e': "rate_limits (fst (update_rate_limits validate_strict
        ''2026-01-05T10:00:00+00:00'' ''rl-2'' stamp0 ?c example_config_db)) = e' # []"
    and m: "\<forall>k. map_of e' k =
                  (if k = ''updated_at'' then Some (BStr ''2026-01-05T10:00:00+00:00'')
                   else case supplied_value ?c k of Some v \<Rightarrow> Some v
                        | None \<Rightarrow> map_of example_config k)"
    using update_rate_limits_frame [OF a b i, of ?c] f by blast
  have "map_of e' ''daily_message_limit'' = Some (BInt 200)"
    "map_of e' ''daily_connection_limit'' = Some (BInt 50)"
    "map_of e' ''skip_weekends'' = Some (BBool True)"
    "map_of e' ''updated_at'' = Some (BStr ''2026-01-05T10:00:00+00:00'')"
    by (simp_all add: m supplied_value_def no_update_def example_config_def
        RateLimitConfig_dump_def RateLimitConfig_default_def)
  moreover have "update_rate_limits validate_strict ''2026-01-05T10:00:00+00:00'' ''rl-2'' stamp0
         ?big example_config_db = (example_config_db, Inl OverflowError)"
    using update_rate_limits_frame [OF a b i, of ?big] g by blast
  ultimately show ?thesis
    using a b i f g e' by blast
qed

text \<open>
  Claim C9 as stated fails: the default configuration is stored, the request supplies a
  daily connection limit of \<open>2 ^ 63\<close>, and the endpoint raises and leaves the database,
  the stored limit of 50 included, as it was.
\<close>

theorem oversized_limit_not_stored_counterexample:
  "stored_rate_limits example_config_db = Some example_config
   \<and> map_of example_config ''daily_connection_limit'' = Some (BInt 50)
   \<and> supplied_value (no_update\<lparr>upd_daily_connection_limit := Some 9223372036854775808\<rparr>)
         ''daily_connection_limit'' = Some (BInt 9223372036854775808)
   \<and> update_rate_limits validate_strict ''2026-01-05T10:00:00+00:00'' ''rl-2'' stamp0
         (no_update\<lparr>upd_daily_connection_limit := Some 9223372036854775808\<rparr>)
         example_config_db =
       (example_config_db, Inl OverflowError)"
proof -
  have a: "rate_limits example_config_db = example_config # []"
    by (simp add: example_config_db_def db_empty_def)
  have b: "map_of example_config ''id'' = Some (BStr ''rl-1'')"
    by (simp add: example_config_def RateLimitConfig_dump_def RateLimitConfig_default_def)
  have g: "\<not> request_fits (no_update\<lparr>upd_daily_connection_limit := Some 9223372036854775808\<rparr>)"
    by (simp add: request_fits_def fits_def no_update_def int64_def)
  have "stored_rate_limits example_config_db = Some example_config"
    by (simp add: stored_rate_limits_def a)
  moreover have "map_of example_config ''daily_connection_limit'' = Some (BInt 50)"
    by (simp add: example_config_def RateLimitConfig_dump_def RateLimitConfig_default_def)
  moreover have "supplied_value (no_update\<lparr>upd_daily_connection_limit := Some 9223372036854775808\<rparr>)
         ''daily_connection_limit'' = Some (BInt 9223372036854775808)"
    by (simp add: supplied_value_def no_update_def)
  ultimately show ?thesis
    by (simp add: update_rate_limits_overflow_existing [OF a b g])
qed




section \<open>Dashboard success rate\<close>

text \<open>
  Claim C10. The dashboard never fails with a division by zero. Whenever it answers (it
  does unless the stored status cannot be read), the success rate is
  \<^verbatim>\<open>round((accepted / total) * 100, 1)\<close> when there is at least one connection and
  0.0 when there is none. The float operations are parameters; that rounding 0.0 gives
  0.0 is the one fact about them that is used.
\<close>

theorem dashboard_success_rate:
  assumes round_zero: "fround ops (fzero ops) 1 = fzero ops"
  shows "get_dashboard_stats ops today db \<noteq> Inl ZeroDivisionError
         \<and> ((\<exists>r. get_dashboard_stats ops today db = Inr r) =
              (\<exists>s. status_of_state (stored_state db) = Inr s))
         \<and> (\<forall>r. get_dashboard_stats ops today db = Inr r \<longrightarrow>
               total_connections r = count_documents [] (connections db)
               \<and> accepted_connections r =
                   count_documents [(''status'', Eq (BStr ''accepted''))] (connections db)
               \<and> (0 < total_connections r \<longrightarrow>
                    success_rate r =
                      fround ops
                        (fmul ops (fdiv ops (accepted_connections r) (total_connections r)) 100) 1)
               \<and> (total_connections r = 0 \<longrightarrow> success_rate r = fzero ops))"
proof -
  have no_zd: "status_of_state s \<noteq> Inl ZeroDivisionError" for s
    by (auto simp: status_of_state_def AutomationStatus_of_def split: option.splits)
  show ?thesis
  proof (cases "status_of_state (stored_state db)")
    case (Inl e)
    then show ?thesis
      using no_zd [of "stored_state db"]
      by (simp add: get_dashboard_stats_def Let_def stored_state_def)
  next
    case (Inr s)
    then show ?thesis
      using round_zero
      by (auto simp: get_dashboard_stats_def Let_def stored_state_def success_rate_of_total)
  qed
qed

text \<open>
  Claim C10, with decimal arithmetic on rationals: one accepted connection of three
  gives 33.3, no connection gives 0.
\<close>

theorem dashboard_success_rate_witness:
  "fround rat_ops (fzero rat_ops) 1 = fzero rat_ops
   \<and> get_dashboard_stats rat_ops ''2026-01-05T00:00:00+00:00'' example_connections_db =
       Inr \<lparr>total_connections = 3, pending_connections = 1, accepted_connections = 1,
            total_messages = 0, messages_today = 0, connections_today = 3,
            automation_status = IDLE, success_rate = 333 / 10\<rparr>
   \<and> get_dashboard_stats rat_ops ''2026-01-05T00:00:00+00:00'' db_empty =
       Inr \<lparr>total_connections = 0, pending_connections = 0, accepted_connections = 0,
            total_messages = 0, messages_today = 0, connections_today = 0,
            automation_status = IDLE, success_rate = 0\<rparr>
   \<and> success_rate_of rat_ops 1 3 = Inr (100 / 3)
   \<and> get_dashboard_stats rat_ops ''2026-01-05T00:00:00+00:00'' example_connections_db
       \<noteq> Inl ZeroDivisionError"
proof -
  have a: "get_dashboard_stats rat_ops ''2026-01-05T00:00:00+00:00'' example_connections_db =
       Inr \<lparr>total_connections = 3, pending_connections = 1, accepted_connections = 1,
            total_messages = 0, messages_today = 0, connections_today = 3,
            automation_status = IDLE, success_rate = 333 / 10\<rparr>"
    by code_simp
  have b: "get_dashboard_stats rat_ops ''2026-01-05T00:00:00+00:00'' db_empty =
       Inr \<lparr>total_connections = 0, pending_connections = 0, accepted_connections = 0,
            total_messages = 0, messages_today = 0, connections_today = 0,
            automation_status = IDLE, success_rate = 0\<rparr>"
    by code_simp
  have c: "success_rate_of rat_ops 1 3 = Inr (100 / 3)"
    by (simp add: success_rate_of_total rat_ops_def)
  show ?thesis
    using a b c round_zero_rat
      dashboard_success_rate [OF round_zero_rat, of "''2026-01-05T00:00:00+00:00''"
        example_connections_db]
    by blast
qed

section \<open>Daily quota\<close>

text \<open>
  Claim C4, on the limiter as the specification describes it. For every configuration
  with non-negative limits and every history of attempts in chronological order: on no
  UTC day are more connection consumptions permitted than the daily connection limit,
  nor more message consumptions than the daily message limit; an attempt that is denied
  or whose dispatch fails leaves the counters as the day check left them; the day check
  changes nothing within the day of the last action, zeroes both counters on any other
  day, and repeated on the same day changes nothing more; and after the history the
  counters are exactly the consumptions of its latest day, so the earlier days' counts
  were dropped at the boundary and nowhere else.
\<close>

theorem limiter_daily_quota:
  assumes "sorted (map fst h)"
    and "0 \<le> daily_connection_limit cfg"
    and "0 \<le> daily_message_limit cfg"
  shows "(\<forall>d. consumed_on (snd (limiter_run cfg h)) d Connect \<le> daily_connection_limit cfg
              \<and> consumed_on (snd (limiter_run cfg h)) d FollowUp \<le> daily_message_limit cfg)
         \<and> (\<forall>s d k ok. \<not> (TryConsume cfg (roll_day d s) k \<and> ok) \<longrightarrow>
                attempt cfg s (d, k, ok) = (roll_day d s, False))
         \<and> (\<forall>s d k. (lim_last_action_day s = Some d \<longrightarrow> roll_day d s = s)
                \<and> (lim_last_action_day s \<noteq> Some d \<longrightarrow> count_today (roll_day d s) k = 0)
                \<and> roll_day d (roll_day d s) = roll_day d s)
         \<and> (h \<noteq> [] \<longrightarrow>
              (\<forall>k. count_today (fst (limiter_run cfg h)) k =
                     consumed_on (snd (limiter_run cfg h)) (fst (last h)) k))"
proof -
  have "limiter_inv cfg h (limiter_run cfg h)"
    using assms by (intro limiter_inv_run) simp_all
  then have quota: "consumed_on (snd (limiter_run cfg h)) d k \<le> limit_of cfg k"
    and today: "h \<noteq> [] \<Longrightarrow>
      count_today (fst (limiter_run cfg h)) k =
        consumed_on (snd (limiter_run cfg h)) (fst (last h)) k" for d k
    by (simp_all add: limiter_inv_def)
  have "consumed_on (snd (limiter_run cfg h)) d Connect \<le> daily_connection_limit cfg
        \<and> consumed_on (snd (limiter_run cfg h)) d FollowUp \<le> daily_message_limit cfg" for d
    using quota [of d Connect] quota [of d FollowUp] by simp
  moreover have "\<not> (TryConsume cfg (roll_day d s) k \<and> ok) \<Longrightarrow>
      attempt cfg s (d, k, ok) = (roll_day d s, False)" for s d k ok
    by (auto simp: Let_def)
  moreover have "roll_day d (roll_day d s) = roll_day d s" for s d
    by (simp add: roll_day_def)
  ultimately show ?thesis
    using today by (simp add: count_today_roll_same count_today_roll_other)
qed

text \<open>
  Claim C4, at a connection limit of two: the third attempt of day 1 is denied, the
  failed message of day 1 consumes nothing, and the first attempt of day 2 starts from zero.
\<close>

theorem limiter_daily_quota_witness:
  "sorted (map fst example_history)
   \<and> 0 \<le> daily_connection_limit example_limits
   \<and> 0 \<le> daily_message_limit example_limits
   \<and> limiter_run example_limits example_history =
       (\<lparr>lim_connections_today = 1, lim_messages_today = 0, lim_last_action_day = Some 2\<rparr>,
        [(1, Connect), (1, Connect), (2, Connect)])
   \<and> consumed_on (snd (limiter_run example_limits example_history)) 1 Connect
       \<le> daily_connection_limit example_limits
   \<and> count_today (fst (limiter_run example_limits example_history)) Connect =
       consumed_on (snd (limiter_run example_limits example_history)) (fst (last example_history))
         Connect"
proof -
  have a: "sorted (map fst example_history)"
    by (simp add: example_history_def)
  have b: "0 \<le> daily_connection_limit example_limits"
    by (simp add: example_limits_def RateLimitConfig_default_def)
  have c: "0 \<le> daily_message_limit example_limits"
    by (simp add: example_limits_def RateLimitConfig_default_def)
  have d: "limiter_run example_limits example_history =
       (\<lparr>lim_connections_today = 1, lim_messages_today = 0, lim_last_action_day = Some 2\<rparr>,
        [(1, Connect), (1, Connect), (2, Connect)])"
    by code_simp
  have e: "example_history \<noteq> []"
    by (simp add: example_history_def)
  show ?thesis
    using a b c d e limiter_daily_quota [OF a b c] by blast
qed

end
